theory Spec2Isabelle
  imports Complex_Main "HOL-Library.Multiset" "HOL-Library.Sublist"
begin

section \<open>Strings of the source language\<close>

text \<open>
  The site is a single TypeScript/JSX file. Its strings are sequences of code units; the
  model uses HOL's \<open>string\<close>, whose characters are the code units \<open>0x00\<close> to \<open>0xFF\<close>
  (ASCII and Latin-1). Every text of the seed content, every key and every literal of the
  source lies in that range. The character classes below are the ECMAScript ones cut down
  to it: of the characters that \<open>\s\<close> and \<open>String.prototype.trim\<close> treat as white space, tab,
  line feed, vertical tab, form feed, carriage return, space and the no-break space
  \<open>0xA0\<close> are below \<open>0x100\<close>; of the line terminators that \<open>.\<close> refuses, line feed
  and carriage return.
\<close>

definition is_space :: "char \<Rightarrow> bool" where
  "is_space c = (c \<in> set [CHR 0x09, CHR 0x0A, CHR 0x0B, CHR 0x0C, CHR 0x0D, CHR '' '', CHR 0xA0])"

definition is_line_terminator :: "char \<Rightarrow> bool" where
  "is_line_terminator c = (c \<in> set [CHR 0x0A, CHR 0x0D])"

definition is_lower_az :: "char \<Rightarrow> bool" where
  "is_lower_az c = (c \<in> set ''abcdefghijklmnopqrstuvwxyz'')"

definition is_digit :: "char \<Rightarrow> bool" where
  "is_digit c = (c \<in> set ''0123456789'')"

text \<open>
  \<open>toLowerCase\<close> on one code unit below \<open>0x100\<close>: \<open>A\<close>-\<open>Z\<close> and the Latin-1 capitals
  \<open>0xC0\<close>-\<open>0xDE\<close> (the multiplication sign \<open>0xD7\<close> excepted) move up by \<open>0x20\<close>; every
  other code unit is its own lower case.
\<close>

definition toLowerCase_char :: "char \<Rightarrow> char" where
  "toLowerCase_char c =
     (let n = (of_char c :: nat) in
      if (65 \<le> n \<and> n \<le> 90) \<or> (192 \<le> n \<and> n \<le> 222 \<and> n \<noteq> 215)
      then char_of (n + 32) else c)"

definition toLowerCase :: "string \<Rightarrow> string" where
  "toLowerCase s = map toLowerCase_char s"

text \<open>\<open>String.prototype.trim\<close>: white space is dropped at both ends.\<close>

definition trim :: "string \<Rightarrow> string" where
  "trim s = rev (dropWhile is_space (rev (dropWhile is_space s)))"

text \<open>\<open>s.replace(/\s+/g, "-")\<close>: every maximal run of white space becomes one hyphen.\<close>

function hyphenate :: "string \<Rightarrow> string" where
  "hyphenate [] = []"
| "hyphenate (c # cs) =
     (if is_space c then CHR ''-'' # hyphenate (dropWhile is_space cs)
      else c # hyphenate cs)"
  by pat_completeness auto
termination
  by (relation "measure length") (auto simp: length_dropWhile_le less_Suc_eq_le)

text \<open>
  \<open>s.split(d)\<close> for a one-character separator \<open>d\<close>: the pieces between the separators,
  empty pieces kept; the empty string gives one empty piece.
\<close>

fun split_char :: "char \<Rightarrow> string \<Rightarrow> string list" where
  "split_char d [] = [[]]"
| "split_char d (c # cs) =
     (if c = d then [] # split_char d cs
      else (case split_char d cs of
              [] \<Rightarrow> [[c]]
            | x # xs \<Rightarrow> (c # x) # xs))"

text \<open>
  \<open>s.split(/\s+/)\<close>: the pieces between the maximal runs of white space. A run at the start
  gives an empty first piece, a run at the end an empty last piece, and the empty string
  gives one empty piece.
\<close>

function split_ws :: "string \<Rightarrow> string list" where
  "split_ws s =
     (case dropWhile (\<lambda>c. \<not> is_space c) s of
        [] \<Rightarrow> [s]
      | _ # r \<Rightarrow> takeWhile (\<lambda>c. \<not> is_space c) s # split_ws (dropWhile is_space r))"
  by pat_completeness auto
termination
proof (relation "measure length", goal_cases)
  case 1
  show ?case by simp
next
  case (2 s x r)
  have "length (dropWhile is_space r) \<le> length r"
    by (rule length_dropWhile_le)
  moreover have "length (dropWhile (\<lambda>c. \<not> is_space c) s) \<le> length s"
    by (rule length_dropWhile_le)
  ultimately show ?case using 2 by simp
qed

declare split_ws.simps [simp del]

section \<open>Utilities of the site\<close>

text \<open>
  \<^verbatim>\<open>const slugify = (str) => str.toLowerCase().replace(/[^a-z0-9\s-]/g, "").trim().replace(/\s+/g, "-");\<close>
\<close>

definition slug_char :: "char \<Rightarrow> bool" where
  "slug_char c = (is_lower_az c \<or> is_digit c \<or> is_space c \<or> c = CHR ''-'')"

definition slugify :: "string \<Rightarrow> string" where
  "slugify str = hyphenate (trim (filter slug_char (toLowerCase str)))"

text \<open>
  \<open>Math.round(n / d)\<close> for a count \<open>n\<close> and a positive integer constant \<open>d\<close>: the quotient
  rounded to the nearest integer, a half rounded up. The double \<open>n / d\<close> is the correctly
  rounded quotient, which lies on the same side of every half-integer as the exact one, so
  the result is the integer \<open>(2 n + d) div (2 d)\<close>.
\<close>

definition Math_round_div :: "nat \<Rightarrow> nat \<Rightarrow> nat" where
  "Math_round_div n d = (2 * n + d) div (2 * d)"

text \<open>
  \<^verbatim>\<open>const estimateMinutes = (md) => Math.max(3, Math.round(md.split(/\s+/).length / 220));\<close>
\<close>

definition estimateMinutes :: "string \<Rightarrow> nat" where
  "estimateMinutes md = max 3 (Math_round_div (length (split_ws md)) 220)"

text \<open>
  \<open>String(n)\<close> for an integer \<open>n\<close> (as in \<open>'submission-' + s.id\<close>): the decimal digits,
  with a minus sign for a negative number. (The exponent form that JavaScript uses from
  \<open>10^21\<close> on is far beyond any millisecond time stamp.)
\<close>

fun show_nat :: "nat \<Rightarrow> string" where
  "show_nat n =
     (if n < 10 then [''0123456789'' ! n]
      else show_nat (n div 10) @ [''0123456789'' ! (n mod 10)])"

declare show_nat.simps [simp del]

definition show_int :: "int \<Rightarrow> string" where
  "show_int i = (if i < 0 then CHR ''-'' # show_nat (nat (- i)) else show_nat (nat i))"

section \<open>Data model\<close>

text \<open>A published post, with the fields of the objects in \<open>samplePosts\<close> and of \<open>approve\<close>.\<close>

record post =
  slug :: string
  title :: string
  author :: string
  date :: string
  hero :: string
  tags :: "string list"
  minutes :: nat
  body :: string

text \<open>
  The draft form of \<open>Contribute\<close>. Its \<open>title\<close>, \<open>tags\<close> and \<open>body\<close> carry the suffix
  \<open>_f\<close>, the names without it being the post's fields.
\<close>

record form =
  name :: string
  email :: string
  affiliation :: string
  title_f :: string
  tags_f :: string
  cover :: string
  summary :: string
  body_f :: string
  agree :: bool

text \<open>
  A submission is \<^verbatim>\<open>{ id, ...form, status:'pending', date: new Date().toISOString() }\<close>:
  the form's fields and three more (\<open>id\<close> and \<open>date\<close> suffixed with \<open>_s\<close>).
\<close>

record submission = form +
  id_s :: int
  status :: string
  date_s :: string

datatype page = Home | Blog | Article | Learn | Library | Contribute | About

text \<open>
  The state that the submission workflow reads and writes: \<open>posts\<close> and \<open>submissions\<close> of
  \<open>ArchaeologyWalaApp\<close>, its \<open>page\<close>, and the draft \<open>form\<close> of \<open>Contribute\<close>
  (\<open>draft\<close> here).
\<close>

record app_state =
  posts :: "post list"
  submissions :: "submission list"
  draft :: form
  current_page :: page

text \<open>
  The clock, read by \<open>Date.now()\<close> (milliseconds) and \<open>new Date().toISOString()\<close>
  (a text such as \<open>2025-08-21T10:15:00.000Z\<close>).
\<close>

record clock =
  now :: int
  iso :: string

subsection \<open>Seed content\<close>

definition samplePost1 :: post where
  "samplePost1 =
     \<lparr>slug = ''pottery-through-ages'',
      title = ''Pottery Through the Ages: From Neolithic to Classical'',
      author = ''Pryank Wadhera'',
      date = ''2025-08-21'',
      hero = ''https://images.unsplash.com/photo-1545239351-1141bd82e8a6?q=80&w=1400&auto=format&fit=crop'',
      tags = [''material culture'', ''ceramics'', ''field methods''],
      minutes = 9,
      body = ''# Pottery Through the Ages\<newline>\<newline>Pottery is one of the most **diagnostic** classes of artifacts in archaeology.\<newline>\<newline>## Neolithic beginnings\<newline>Handmade, low-fired vessels appear with the rise of sedentism.\<newline>\<newline>## Form & function\<newline>Rim profiles, tempers, and surface treatments are key for *typological* studies.\<newline>\<newline>## Classical refinements\<newline>Wheel-thrown finewares, slips, and painted motifs enable tight **chronologies**.\<newline>\<newline>> Field note: Sherds dominate most survey assemblages; bring sturdy bags!\<newline>\<newline>### Further reading\<newline>- Rice, *Pottery Analysis*\<newline>- Orton & Hughes, *Pottery in Archaeology*\<newline>''\<rparr>"

definition samplePost2 :: post where
  "samplePost2 =
     \<lparr>slug = ''archaeology-101-field-kit'',
      title = ''Archaeology 101: Building a Field Kit'',
      author = ''Pryank Wadhera'',
      date = ''2025-07-10'',
      hero = ''https://images.unsplash.com/photo-1519120944692-1f7e6e7fbd3d?q=80&w=1400&auto=format&fit=crop'',
      tags = [''field methods'', ''how-to'', ''gear''],
      minutes = 6,
      body = ''# Archaeology 101: Building a Field Kit\<newline>\<newline>A dependable kit keeps digs safe and efficient.\<newline>\<newline>## Essentials\<newline>- Trowel (pointed and margin)\<newline>- Brushes (soft + stiff)\<newline>- Scale bars & photo board\<newline>- Hand lens (10x)\<newline>\<newline>## Recording\<newline>- Waterproof notebook\<newline>- Context sheets\<newline>- GPS/total station access\<newline>\<newline>### Safety\<newline>Sun protection, hydration plan, first aid.\<newline>''\<rparr>"

definition samplePost3 :: post where
  "samplePost3 =
     \<lparr>slug = ''digital-archaeology'',
      title = ''Digital Archaeology: Drones, Photogrammetry, and 3D'',
      author = ''Pryank Wadhera'',
      date = ''2025-06-14'',
      hero = ''https://images.unsplash.com/photo-1500530855697-b586d89ba3ee?q=80&w=1400&auto=format&fit=crop'',
      tags = [''technology'', ''survey'', ''3D''],
      minutes = 8,
      body = ''# Digital Archaeology: Drones, Photogrammetry, and 3D\<newline>\<newline>Cheap sensors + fast compute have transformed documentation.\<newline>\<newline>## Flight planning\<newline>Overlap, GSD, and ground control points matter.\<newline>\<newline>## From pixels to points\<newline>Structure-from-Motion generates dense point clouds and textured meshes.\<newline>\<newline>## Ethics\<newline>Mind permissions, privacy, and site protection.\<newline>''\<rparr>"

definition samplePosts :: "post list" where
  "samplePosts = [samplePost1, samplePost2, samplePost3]"

section \<open>Bookmarks\<close>

text \<open>
  \<^verbatim>\<open>const toggleBookmark = (slug) => setBookmarks(bm => bm.includes(slug) ? bm.filter(s => s!==slug) : [...bm, slug]);\<close>
\<close>

definition toggleBookmark :: "string \<Rightarrow> string list \<Rightarrow> string list" where
  "toggleBookmark sl bm = (if sl \<in> set bm then filter (\<lambda>s. s \<noteq> sl) bm else bm @ [sl])"

section \<open>Search and the blog listing\<close>

text \<open>
  The fuzzy matcher is the library Fuse.js, which the site only calls. It enters the model
  as a parameter \<open>Fuse\<close>: \<open>Fuse opts ps q\<close> stands for
  \<^verbatim>\<open>new Fuse(ps, opts).search(q).map(r => r.item)\<close>, the matching posts in the order of the
  library's ranking. The index is rebuilt from \<open>posts\<close> whenever they change
  (\<open>useMemo(..., [posts])\<close>), so a search always runs over the current corpus.
\<close>

record fuse_options =
  keys :: "string list"
  threshold :: rat

type_synonym fuse = "fuse_options \<Rightarrow> post list \<Rightarrow> string \<Rightarrow> post list"

definition fuse_opts :: fuse_options where
  "fuse_opts = \<lparr>keys = [''title'', ''tags'', ''body''], threshold = 33 / 100\<rparr>"

text \<open>
  \<^verbatim>\<open>const filtered = useMemo(() => { if (!query) return posts; return fuse.search(query).map(r => r.item); }, ...);\<close>
\<close>

definition filtered :: "fuse \<Rightarrow> post list \<Rightarrow> string \<Rightarrow> post list" where
  "filtered Fuse ps query = (if query = [] then ps else Fuse fuse_opts ps query)"

text \<open>
  \<^verbatim>\<open>const shown = tag ? posts.filter(p=>p.tags.includes(tag)) : posts;\<close>
  The selected tag is \<open>string|undefined\<close>; \<open>undefined\<close> is \<open>None\<close>. The test \<open>tag ? ...\<close> is
  also false for the empty string.
\<close>

definition shown :: "string option \<Rightarrow> post list \<Rightarrow> post list" where
  "shown tag ps =
     (case tag of
        None \<Rightarrow> ps
      | Some t \<Rightarrow> if t = [] then ps else filter (\<lambda>p. t \<in> set (tags p)) ps)"

text \<open>The blog page renders \<^verbatim>\<open><BlogIndex posts={filtered} ... />\<close>.\<close>

definition blog_listing :: "fuse \<Rightarrow> post list \<Rightarrow> string \<Rightarrow> string option \<Rightarrow> post list" where
  "blog_listing Fuse ps query tag = shown tag (filtered Fuse ps query)"

section \<open>Submission workflow\<close>

definition empty_form :: form where
  "empty_form =
     \<lparr>name = [], email = [], affiliation = [], title_f = [], tags_f = [], cover = [],
      summary = [], body_f = [], agree = False\<rparr>"

text \<open>
  The user edits the draft through \<^verbatim>\<open>setForm({...form, field: value})\<close>; any form can be
  typed in.
\<close>

definition setForm :: "form \<Rightarrow> app_state \<Rightarrow> app_state" where
  "setForm f st = st\<lparr>draft := f\<rparr>"

text \<open>
  \<^verbatim>\<open>
  const submit = () => {
    if (!form.name || !form.email || !form.title || !form.body || !form.agree) { alert('Please fill ...'); return; }
    const id = Date.now();
    const sub = { id, ...form, status:'pending', date: new Date().toISOString() };
    setSubmissions((prev)=> [sub, ...prev]);
    setForm({ name:'', ..., agree:false });
    alert('Thanks! Your article was submitted for review.');
  };\<close>
  The result is the text of the alert and the new state.
\<close>

definition submit :: "clock \<Rightarrow> app_state \<Rightarrow> string \<times> app_state" where
  "submit clk st =
     (let f = draft st in
      if name f = [] \<or> email f = [] \<or> title_f f = [] \<or> body_f f = [] \<or> \<not> agree f
      then (''Please fill required fields and agree to the terms.'', st)
      else
        let sub = \<lparr>name = name f, email = email f, affiliation = affiliation f,
                    title_f = title_f f, tags_f = tags_f f, cover = cover f,
                    summary = summary f, body_f = body_f f, agree = agree f,
                    id_s = now clk, status = ''pending'', date_s = iso clk\<rparr>
        in (''Thanks! Your article was submitted for review.'',
            st\<lparr>submissions := sub # submissions st, draft := empty_form\<rparr>))"

text \<open>\<^verbatim>\<open>addPost={(p)=>setPosts((prev)=>[p,...prev])}\<close>\<close>

definition addPost :: "post \<Rightarrow> app_state \<Rightarrow> app_state" where
  "addPost p st = st\<lparr>posts := p # posts st\<rparr>"

text \<open>
  \<^verbatim>\<open>
  const approve = (s) => {
    const slug = slugify(s.title) || ('submission-' + s.id);
    const post = { slug, title:s.title, author: s.name, date: new Date().toISOString().slice(0,10),
      hero: s.cover || 'https://images.unsplash.com/photo-1541417904950-...',
      tags: s.tags? s.tags.split(',').map((t)=>t.trim()).filter(Boolean):[],
      minutes: estimateMinutes(s.body), body: `# ${s.title}\n\n${s.body}` };
    addPost(post);
    setSubmissions((prev)=> prev.filter((x)=> x.id !== s.id));
    setPage('blog');
  };\<close>
\<close>

definition placeholder_hero :: string where
  "placeholder_hero =
     ''https://images.unsplash.com/photo-1541417904950-b855846fe074?q=80&w=1600&auto=format&fit=crop''"

definition approve_slug :: "submission \<Rightarrow> string" where
  "approve_slug s =
     (if slugify (title_f s) = [] then ''submission-'' @ show_int (id_s s)
      else slugify (title_f s))"

definition approve_tags :: "submission \<Rightarrow> string list" where
  "approve_tags s =
     (if tags_f s = [] then []
      else filter (\<lambda>t. t \<noteq> []) (map trim (split_char (CHR '','') (tags_f s))))"

definition approve_post :: "clock \<Rightarrow> submission \<Rightarrow> post" where
  "approve_post clk s =
     \<lparr>slug = approve_slug s,
      title = title_f s,
      author = name s,
      date = take 10 (iso clk),
      hero = (if cover s = [] then placeholder_hero else cover s),
      tags = approve_tags s,
      minutes = estimateMinutes (body_f s),
      body = ''# '' @ title_f s @ ''\<newline>\<newline>'' @ body_f s\<rparr>"

definition approve :: "clock \<Rightarrow> submission \<Rightarrow> app_state \<Rightarrow> app_state" where
  "approve clk s st =
     (let st1 = addPost (approve_post clk s) st;
          st2 = st1\<lparr>submissions := filter (\<lambda>x. id_s x \<noteq> id_s s) (submissions st1)\<rparr>
      in st2\<lparr>current_page := Blog\<rparr>)"

text \<open>
  \<^verbatim>\<open>
  const reject = (s) => {
    if (!confirm('Reject and remove this submission?')) return;
    setSubmissions((prev)=> prev.filter((x)=> x.id !== s.id));
  };\<close>
  The answer to the confirmation prompt is the first argument.
\<close>

definition reject :: "bool \<Rightarrow> submission \<Rightarrow> app_state \<Rightarrow> app_state" where
  "reject confirmed s st =
     (if \<not> confirmed then st
      else st\<lparr>submissions := filter (\<lambda>x. id_s x \<noteq> id_s s) (submissions st)\<rparr>)"

text \<open>
  The states the workflow can reach from a fresh installation (no saved state: the seed
  posts, no submission, an empty draft, the home page): the user edits the draft, submits
  it, and the editor approves or rejects a submission of the pending list.
\<close>

definition initial_state :: app_state where
  "initial_state =
     \<lparr>posts = samplePosts, submissions = [], draft = empty_form, current_page = Home\<rparr>"

inductive reachable :: "app_state \<Rightarrow> bool" where
  start: "reachable initial_state"
| edit: "reachable st \<Longrightarrow> reachable (setForm f st)"
| submitted: "reachable st \<Longrightarrow> reachable (snd (submit clk st))"
| approved: "reachable st \<Longrightarrow> s \<in> set (submissions st) \<Longrightarrow> reachable (approve clk s st)"
| rejected: "reachable st \<Longrightarrow> s \<in> set (submissions st) \<Longrightarrow> reachable (reject b s st)"

section \<open>The persistent store\<close>

text \<open>
  The browser's \<open>localStorage\<close> and the codec \<open>JSON\<close> are not code of the site. The
  store enters the model as a value: the items it holds, whether \<open>getItem\<close> throws
  (storage disabled or unavailable), and for which writes \<open>setItem\<close> throws (quota
  exceeded, storage unavailable). A call of the environment gives an \<open>outcome\<close>: a
  returned value or a thrown exception. \<open>JSON.parse\<close> and \<open>JSON.stringify\<close> are
  parameters of the helpers, \<open>parse\<close> and \<open>stringify\<close>; \<open>stringify v\<close> stands for the text
  that \<open>setItem\<close> receives.
\<close>

datatype 'a outcome = Returned 'a | Thrown

record storage =
  items :: "string \<Rightarrow> string option"
  getItem_throws :: bool
  setItem_throws :: "string \<Rightarrow> string \<Rightarrow> bool"

definition getItem :: "storage \<Rightarrow> string \<Rightarrow> string option outcome" where
  "getItem ls key = (if getItem_throws ls then Thrown else Returned (items ls key))"

definition setItem :: "storage \<Rightarrow> string \<Rightarrow> string \<Rightarrow> storage outcome" where
  "setItem ls key val =
     (if setItem_throws ls key val then Thrown
      else Returned (ls\<lparr>items := (items ls)(key \<mapsto> val)\<rparr>))"

text \<open>\<^verbatim>\<open>try { attempt } catch { handler }\<close>\<close>

definition try_catch :: "'a outcome \<Rightarrow> 'a outcome \<Rightarrow> 'a outcome" where
  "try_catch attempt handler = (case attempt of Thrown \<Rightarrow> handler | Returned v \<Rightarrow> Returned v)"

text \<open>
  \<^verbatim>\<open>
  const loadLS = (key, fallback) => {
    try { const val = localStorage.getItem(key); return val ? JSON.parse(val) : fallback; } catch { return fallback; }
  };\<close>
  \<open>getItem\<close> gives \<open>null\<close> for a missing key; \<open>val ? ... : ...\<close> is false for \<open>null\<close> and
  for the empty text.
\<close>

definition loadLS :: "(string \<Rightarrow> 'v outcome) \<Rightarrow> storage \<Rightarrow> string \<Rightarrow> 'v \<Rightarrow> 'v outcome" where
  "loadLS parse ls key fallback =
     try_catch
       (case getItem ls key of
          Thrown \<Rightarrow> Thrown
        | Returned None \<Rightarrow> Returned fallback
        | Returned (Some val) \<Rightarrow> if val = [] then Returned fallback else parse val)
       (Returned fallback)"

text \<open>
  \<^verbatim>\<open>const saveLS = (key, val) => { try { localStorage.setItem(key, JSON.stringify(val)); } catch {} };\<close>
  The result is the store after the call.
\<close>

definition saveLS :: "('v \<Rightarrow> string outcome) \<Rightarrow> storage \<Rightarrow> string \<Rightarrow> 'v \<Rightarrow> storage outcome" where
  "saveLS stringify ls key val =
     try_catch
       (case stringify val of
          Thrown \<Rightarrow> Thrown
        | Returned text \<Rightarrow> setItem ls key text)
       (Returned ls)"

text \<open>
  A mutation with its write-through: \<open>toggleBookmark\<close> sets the bookmarks in memory, and
  the effect \<^verbatim>\<open>useEffect(() => { saveLS('aw:bookmarks', bookmarks); }, [bookmarks])\<close> then
  saves them. The result is the bookmarks in memory and the outcome of the effect.
\<close>

definition toggleBookmark_saved ::
  "(string list \<Rightarrow> string outcome) \<Rightarrow> string \<Rightarrow> string list \<times> storage
     \<Rightarrow> string list \<times> storage outcome" where
  "toggleBookmark_saved stringify sl mem =
     (let bm = toggleBookmark sl (fst mem)
      in (bm, saveLS stringify (snd mem) ''aw:bookmarks'' bm))"

section \<open>The document processor\<close>

subsection \<open>Heading outline\<close>

text \<open>
  \<^verbatim>\<open>const m = /^(#{1,6})\s+(.+)$/.exec(line);\<close>
  The result is the pair of the two groups, or \<open>None\<close> for \<open>null\<close>. The pattern has no flag,
  so \<open>^\<close> and \<open>$\<close> are the two ends of \<open>line\<close> and \<open>.\<close> is any character but a line
  terminator. The matcher is greedy and backtracks:
  \<^item> group 1 is the whole run of \<open>#\<close> at the start, which must have 1 to 6 characters
    (after fewer of them the next character is a \<open>#\<close>, not white space);
  \<^item> \<open>\s+\<close> takes the whole run of white space that follows, which must not be empty;
  \<^item> group 2 is the rest up to the end, which must be free of line terminators;
  \<^item> when the white space runs to the end of the line, \<open>\s+\<close> gives its last character
    back, and group 2 is that character (if there are two at least, and the last is not a
    line terminator).
\<close>

definition heading_exec :: "string \<Rightarrow> (string \<times> string) option" where
  "heading_exec line =
     (let h = takeWhile (\<lambda>c. c = CHR ''#'') line;
          r = dropWhile (\<lambda>c. c = CHR ''#'') line;
          w = takeWhile is_space r;
          t = dropWhile is_space r
      in if length h < 1 \<or> 6 < length h \<or> w = [] then None
         else if t \<noteq> [] then
           (if list_ex is_line_terminator t then None else Some (h, t))
         else if 2 \<le> length w \<and> \<not> is_line_terminator (last w) then Some (h, [last w])
         else None)"

text \<open>An entry of the outline, \<^verbatim>\<open>{level:number; text:string; id:string}\<close>.\<close>

record toc_item =
  level :: nat
  text_t :: string
  id_t :: string

text \<open>
  \<^verbatim>\<open>
  const lines = post.body.split(/\n/);
  const items = [];
  for (const line of lines) {
    const m = /^(#{1,6})\s+(.+)$/.exec(line);
    if (m) {
      const level = m[1].length;
      const text = m[2].replace(/`/g, '');
      const id = slugify(text);
      items.push({ level, text, id });
    }
  }
  setToc(items);\<close>
  \<open>heading_item\<close> is the body of the loop for one line: the entry that is pushed, if any.
\<close>

definition heading_item :: "string \<Rightarrow> toc_item option" where
  "heading_item line =
     (case heading_exec line of
        None \<Rightarrow> None
      | Some (m1, m2) \<Rightarrow>
          (let text = filter (\<lambda>c. c \<noteq> CHR 0x60) m2
           in Some \<lparr>level = length m1, text_t = text, id_t = slugify text\<rparr>))"

definition toc_step :: "toc_item list \<Rightarrow> string \<Rightarrow> toc_item list" where
  "toc_step its line = (case heading_item line of None \<Rightarrow> its | Some it \<Rightarrow> its @ [it])"

definition toc :: "string \<Rightarrow> toc_item list" where
  "toc md = foldl toc_step [] (split_char (CHR 0x0A) md)"

text \<open>
  The slugification as the specification words it: lower-case, strip all characters
  outside \<open>[a-z0-9 -]\<close>, trim, collapse white-space runs to one hyphen. It differs from
  \<open>slugify\<close> in the characters it keeps: of the white space, the space only.
\<close>

definition spec_slug_char :: "char \<Rightarrow> bool" where
  "spec_slug_char c = (is_lower_az c \<or> is_digit c \<or> c = CHR '' '' \<or> c = CHR ''-'')"

definition spec_slugify :: "string \<Rightarrow> string" where
  "spec_slugify str = hyphenate (trim (filter spec_slug_char (toLowerCase str)))"

subsection \<open>Glossary\<close>

text \<open>
  \<^verbatim>\<open>
  const glossary: Record<string, string> = {
    typological: "Classification of artifacts based on shared attributes.",
    sherds: "Broken pieces of ceramic material found at sites.",
    chronology: "The dating and sequencing of past events and materials.",
  };\<close>
\<close>

definition glossary :: "(string \<times> string) list" where
  "glossary =
     [(''typological'', ''Classification of artifacts based on shared attributes.''),
      (''sherds'', ''Broken pieces of ceramic material found at sites.''),
      (''chronology'', ''The dating and sequencing of past events and materials.'')]"

text \<open>
  \<open>glossary[key]\<close>. The glossary is a plain object, so a key that is not its own is looked
  up in \<open>Object.prototype\<close>, whose members are functions and objects, not texts.
\<close>

datatype property = Own string | Inherited | Undefined

definition object_prototype_keys :: "string list" where
  "object_prototype_keys =
     [''constructor'', ''__proto__'', ''hasOwnProperty'', ''isPrototypeOf'',
      ''propertyIsEnumerable'', ''toLocaleString'', ''toString'', ''valueOf'',
      ''__defineGetter__'', ''__defineSetter__'', ''__lookupGetter__'', ''__lookupSetter__'']"

definition glossary_get :: "string \<Rightarrow> property" where
  "glossary_get key =
     (case map_of glossary key of
        Some d \<Rightarrow> Own d
      | None \<Rightarrow> if key \<in> set object_prototype_keys then Inherited else Undefined)"

text \<open>
  The pattern \<^verbatim>\<open>/(typological|sherds|chronologies?)/gi\<close> at the start of a text: the
  alternatives in their order, \<open>chronologies?\<close> with its \<open>s\<close> first, letters compared without
  case. (Without the flag \<open>u\<close> a character matches a letter of the pattern when both have
  the same upper case; below \<open>0x100\<close> these are the letter and its capital, the characters
  whose lower case is the letter.) The result is the matched text.
\<close>

definition term_alternatives :: "string list" where
  "term_alternatives = [''typological'', ''sherds'', ''chronologies'', ''chronologie'']"

definition matches_at :: "string \<Rightarrow> string \<Rightarrow> bool" where
  "matches_at pat s = (length pat \<le> length s \<and> toLowerCase (take (length pat) s) = pat)"

definition match_term :: "string \<Rightarrow> string option" where
  "match_term s =
     (case filter (\<lambda>pat. matches_at pat s) term_alternatives of
        [] \<Rightarrow> None
      | pat # _ \<Rightarrow> Some (take (length pat) s))"

text \<open>
  \<^verbatim>\<open>text.split(/(typological|sherds|chronologies?)/gi)\<close>: the pieces between the matches,
  and, the pattern being one group, each matched text between them. \<open>acc\<close> is the current
  piece, reversed.
\<close>

function split_terms_from :: "string \<Rightarrow> string \<Rightarrow> string list" where
  "split_terms_from acc [] = [rev acc]"
| "split_terms_from acc (c # cs) =
     (case match_term (c # cs) of
        None \<Rightarrow> split_terms_from (c # acc) cs
      | Some m \<Rightarrow> rev acc # m # split_terms_from [] (drop (length m - 1) cs))"
  by pat_completeness auto
termination
  by (relation "measure (\<lambda>(acc, s). length s)") auto

definition split_terms :: "string \<Rightarrow> string list" where
  "split_terms text = split_terms_from [] text"

text \<open>\<open>key.replace(/s$/, '')\<close>: one \<open>s\<close> at the end is removed.\<close>

definition strip_final_s :: "string \<Rightarrow> string" where
  "strip_final_s k = (if k \<noteq> [] \<and> last k = CHR ''s'' then butlast k else k)"

text \<open>
  \<^verbatim>\<open>
  text: ({ node, children }) => {
    const text = String(children);
    const parts = text.split(/(typological|sherds|chronologies?)/gi);
    return <>{parts.map((part, i) => {
      const key = part.toLowerCase().replace(/s$/, '');
      if (glossary[key]) {
        return <span key={i} title={glossary[key]} className="...">{part}</span>;
      }
      return <React.Fragment key={i}>{part}</React.Fragment>;
    })}</>;
  }\<close>
  A rendered part is a \<open>span\<close> with its title and text, or a fragment with its text.
\<close>

datatype node = Span property string | Fragment string

definition render_part :: "string \<Rightarrow> node" where
  "render_part part =
     (let key = strip_final_s (toLowerCase part)
      in if glossary_get key \<noteq> Undefined then Span (glossary_get key) part
         else Fragment part)"

definition text_component :: "string \<Rightarrow> node list" where
  "text_component text = map render_part (split_terms text)"

section \<open>The word count of the specification\<close>

text \<open>
  The specification's reading time divides a word count. The words of a text are its
  maximal runs of characters that are not white space; \<open>cur\<close> is the word being read,
  reversed. This is the specification's side of the comparison with \<open>split_ws\<close>, which
  \<open>estimateMinutes\<close> counts.
\<close>

fun spec_words_from :: "string \<Rightarrow> string \<Rightarrow> string list" where
  "spec_words_from cur [] = (if cur = [] then [] else [rev cur])"
| "spec_words_from cur (c # cs) =
     (if is_space c
      then (if cur = [] then spec_words_from [] cs else rev cur # spec_words_from [] cs)
      else spec_words_from (c # cur) cs)"

definition spec_words :: "string \<Rightarrow> string list" where
  "spec_words b = spec_words_from [] b"

definition spec_word_count :: "string \<Rightarrow> nat" where
  "spec_word_count b = length (spec_words b)"

text \<open>
  The empty pieces of \<open>s.split(/\s+/)\<close>: one at the start when the text is empty or begins
  with white space, one at the end when a non-empty text ends with white space.
\<close>

definition lead :: "string \<Rightarrow> nat" where
  "lead s = (if s = [] \<or> is_space (hd s) then 1 else 0)"

definition trail :: "string \<Rightarrow> nat" where
  "trail s = (if s \<noteq> [] \<and> is_space (last s) then 1 else 0)"

section \<open>Example inputs\<close>

text \<open>A clock reading, a filled-in draft, and the submission that \<open>submit\<close> makes of them.\<close>

definition demo_clock :: clock where
  "demo_clock = \<lparr>now = 1756684800000, iso = ''2025-09-01T00:00:00.000Z''\<rparr>"

definition demo_form :: form where
  "demo_form =
     \<lparr>name = ''Asha Rao'', email = ''asha@example.org'', affiliation = [],
      title_f = ''Pottery Through Ages'', tags_f = ''ceramics, , survey'', cover = [],
      summary = [], body_f = ''Sherds again.'', agree = True\<rparr>"

definition demo_submission :: submission where
  "demo_submission =
     \<lparr>name = ''Asha Rao'', email = ''asha@example.org'', affiliation = [],
      title_f = ''Pottery Through Ages'', tags_f = ''ceramics, , survey'', cover = [],
      summary = [], body_f = ''Sherds again.'', agree = True,
      id_s = 1756684800000, status = ''pending'', date_s = ''2025-09-01T00:00:00.000Z''\<rparr>"

text \<open>
  A stand-in for the fuzzy matcher in examples: the posts that have the query as their
  title or among their tags, the last of the corpus first.
\<close>

definition demo_fuse :: fuse where
  "demo_fuse opts ps q = rev (filter (\<lambda>p. title p = q \<or> q \<in> set (tags p)) ps)"

text \<open>
  A stand-in for the JSON codec of a truth value, as saved under \<open>aw:dark\<close>, and three
  stores: an empty one, one whose item under \<open>aw:dark\<close> is not JSON, and one that refuses
  every call.
\<close>

definition parse_bool :: "string \<Rightarrow> bool outcome" where
  "parse_bool s =
     (if s = ''true'' then Returned True else if s = ''false'' then Returned False else Thrown)"

definition stringify_bool :: "bool \<Rightarrow> string outcome" where
  "stringify_bool b = Returned (if b then ''true'' else ''false'')"

definition empty_storage :: storage where
  "empty_storage =
     \<lparr>items = (\<lambda>k. None), getItem_throws = False, setItem_throws = (\<lambda>k v. False)\<rparr>"

definition corrupt_storage :: storage where
  "corrupt_storage =
     \<lparr>items = (\<lambda>k. if k = ''aw:dark'' then Some ''{tru'' else None),
      getItem_throws = False, setItem_throws = (\<lambda>k v. False)\<rparr>"

definition failing_storage :: storage where
  "failing_storage =
     \<lparr>items = (\<lambda>k. None), getItem_throws = True, setItem_throws = (\<lambda>k v. True)\<rparr>"

text \<open>A heading with a tab between its two words, and the line that carries it.\<close>

definition tabbed_heading :: string where
  "tabbed_heading = ''Survey'' @ CHR 0x09 # ''methods''"

definition tabbed_line :: string where
  "tabbed_line = ''## '' @ tabbed_heading"

text \<open>A text of 769 words, each followed by a space: it ends with white space.\<close>

definition trailing_space_text :: string where
  "trailing_space_text = concat (replicate 769 ''a '')"

section \<open>Properties\<close>

subsection \<open>Evaluation of the utilities\<close>

lemma slugify_examples:
  "slugify ''Pottery 101!'' = ''pottery-101''"
  "slugify ''!!!'' = []"
  "slugify ''Pottery Through Ages'' = ''pottery-through-ages''"
  "slugify ''Form & function'' = ''form-function''"
  by code_simp+

lemma show_int_examples:
  "show_int 42 = ''42''"
  "show_int 1756684800000 = ''1756684800000''"
  by (simp_all add: show_int_def show_nat.simps)

lemma sample_slugs:
  "map slug samplePosts =
     [''pottery-through-ages'', ''archaeology-101-field-kit'', ''digital-archaeology'']"
  by (simp add: samplePosts_def samplePost1_def samplePost2_def samplePost3_def)

lemma submit_demo:
  "submit demo_clock (setForm demo_form initial_state) =
     (''Thanks! Your article was submitted for review.'',
      initial_state\<lparr>submissions := [demo_submission]\<rparr>)"
  by (simp add: submit_def setForm_def demo_form_def demo_clock_def demo_submission_def
      initial_state_def empty_form_def)

lemma approve_slug_demo: "approve_slug demo_submission = ''pottery-through-ages''"
  by (simp add: approve_slug_def demo_submission_def slugify_examples)

lemma approve_tags_demo: "approve_tags demo_submission = [''ceramics'', ''survey'']"
  by (simp add: approve_tags_def demo_submission_def trim_def is_space_def)

lemma reachable_demo:
  "reachable (approve demo_clock demo_submission (initial_state\<lparr>submissions := [demo_submission]\<rparr>))"
proof -
  have "reachable (setForm demo_form initial_state)"
    by (rule reachable.edit) (rule reachable.start)
  then have "reachable (snd (submit demo_clock (setForm demo_form initial_state)))"
    by (rule reachable.submitted)
  then have r: "reachable (initial_state\<lparr>submissions := [demo_submission]\<rparr>)"
    by (simp add: submit_demo)
  show ?thesis
    by (rule reachable.approved [OF r]) simp
qed

subsection \<open>Slugs of the corpus\<close>

text \<open>
  Claim C1, as the specification states it, fails: \<open>approve\<close> derives the slug from the
  title alone and never looks at the corpus. From a fresh installation a visitor submits an
  article titled \<open>Pottery Through Ages\<close>; its slug is \<open>pottery-through-ages\<close>, the slug
  of the first seed post, and after the approval the corpus holds that slug twice.
\<close>

theorem approve_duplicate_slug:
  "reachable (approve demo_clock demo_submission (initial_state\<lparr>submissions := [demo_submission]\<rparr>))
   \<and> count_list (map slug (posts (approve demo_clock demo_submission
         (initial_state\<lparr>submissions := [demo_submission]\<rparr>)))) (approve_slug demo_submission) = 2"
  using reachable_demo
  by (simp add: approve_def addPost_def approve_post_def Let_def approve_slug_demo
      initial_state_def sample_slugs)

text \<open>
  Claim C1, amended. After the approval of a submission \<open>s\<close> no submission with the id of
  \<open>s\<close> is pending, and the new post, whose slug is the one derived from the title of \<open>s\<close>,
  is the first of the corpus. The corpus holds that slug once more than before: exactly
  once when no post had it, and the slugs of the corpus are distinct after the approval
  exactly when they were distinct before and the derived slug is new. The slugs of the seed
  corpus are distinct.
\<close>

theorem approve_slug_count:
  "id_s s \<notin> id_s ` set (submissions (approve clk s st))
   \<and> slug (hd (posts (approve clk s st))) = approve_slug s
   \<and> count_list (map slug (posts (approve clk s st))) (approve_slug s)
       = Suc (count_list (map slug (posts st)) (approve_slug s))
   \<and> (distinct (map slug (posts (approve clk s st)))
        = (distinct (map slug (posts st)) \<and> approve_slug s \<notin> slug ` set (posts st)))
   \<and> distinct (map slug (posts initial_state))"
  by (auto simp: approve_def addPost_def approve_post_def Let_def initial_state_def sample_slugs)

theorem approve_slug_count_witness:
  "count_list (map slug (posts (approve demo_clock (demo_submission\<lparr>title_f := ''!!!''\<rparr>)
      (initial_state\<lparr>submissions := [demo_submission]\<rparr>)))) ''submission-1756684800000'' = 1
   \<and> submissions (approve demo_clock (demo_submission\<lparr>title_f := ''!!!''\<rparr>)
      (initial_state\<lparr>submissions := [demo_submission]\<rparr>)) = []"
  using approve_slug_count [of "demo_submission\<lparr>title_f := ''!!!''\<rparr>" demo_clock
      "initial_state\<lparr>submissions := [demo_submission]\<rparr>"]
  by (simp add: approve_slug_def slugify_examples demo_submission_def show_int_examples
      initial_state_def sample_slugs approve_def addPost_def Let_def)

subsection \<open>The post that an approval makes\<close>

text \<open>
  Claim C2. For every submission \<open>s\<close>, \<open>approve\<close> puts a new post in front of the corpus.
  Its slug is \<open>slugify\<close> of the title, and \<open>submission-\<close> followed by the id exactly when
  that is empty, so it is never empty; its tags are the raw tags split on commas, each
  piece trimmed, the empty ones dropped (none for empty raw tags); its hero is the
  placeholder image (the fixed address of the source) when the submission has no cover,
  and the cover otherwise, so it is never empty; its minutes are the reading-time
  estimate of the body. The title \<open>Pottery 101!\<close> gives the slug \<open>pottery-101\<close>, the
  title \<open>!!!\<close> the slug \<open>submission-<id>\<close>.
\<close>

theorem approve_constructs_post:
  "posts (approve clk s st) = approve_post clk s # posts st
   \<and> slug (approve_post clk s) =
       (if slugify (title_f s) = [] then ''submission-'' @ show_int (id_s s)
        else slugify (title_f s))
   \<and> slug (approve_post clk s) \<noteq> []
   \<and> tags (approve_post clk s) =
       filter (\<lambda>t. t \<noteq> []) (map trim (split_char (CHR '','') (tags_f s)))
   \<and> (tags_f s = [] \<longrightarrow> tags (approve_post clk s) = [])
   \<and> hero (approve_post clk s) = (if cover s = [] then placeholder_hero else cover s)
   \<and> (cover s = [] \<longrightarrow> hero (approve_post clk s) =
        ''https://images.unsplash.com/photo-1541417904950-b855846fe074?q=80&w=1600&auto=format&fit=crop'')
   \<and> (cover s \<noteq> [] \<longrightarrow> hero (approve_post clk s) = cover s)
   \<and> hero (approve_post clk s) \<noteq> []
   \<and> minutes (approve_post clk s) = estimateMinutes (body_f s)
   \<and> (title_f s = ''Pottery 101!'' \<longrightarrow> slug (approve_post clk s) = ''pottery-101'')
   \<and> (title_f s = ''!!!'' \<longrightarrow> slug (approve_post clk s) = ''submission-'' @ show_int (id_s s))"
  by (simp add: approve_def addPost_def approve_post_def approve_slug_def approve_tags_def
      trim_def slugify_examples Let_def placeholder_hero_def)

theorem approve_constructs_post_witness:
  "slug (approve_post demo_clock (demo_submission\<lparr>title_f := ''Pottery 101!'', tags_f := []\<rparr>))
     = ''pottery-101''
   \<and> tags (approve_post demo_clock (demo_submission\<lparr>title_f := ''Pottery 101!'', tags_f := []\<rparr>)) = []
   \<and> slug (approve_post demo_clock (demo_submission\<lparr>title_f := ''!!!'', id_s := 42\<rparr>))
     = ''submission-42''
   \<and> tags (approve_post demo_clock demo_submission) = [''ceramics'', ''survey'']
   \<and> hero (approve_post demo_clock demo_submission) =
       ''https://images.unsplash.com/photo-1541417904950-b855846fe074?q=80&w=1600&auto=format&fit=crop''
   \<and> hero (approve_post demo_clock (demo_submission\<lparr>cover := ''https://example.org/dig.jpg''\<rparr>))
       = ''https://example.org/dig.jpg''
   \<and> minutes (approve_post demo_clock demo_submission) = 3"
  using approve_constructs_post [of demo_clock "demo_submission\<lparr>title_f := ''Pottery 101!'', tags_f := []\<rparr>" initial_state]
    approve_constructs_post [of demo_clock "demo_submission\<lparr>title_f := ''!!!'', id_s := 42\<rparr>" initial_state]
    approve_constructs_post [of demo_clock demo_submission initial_state]
    approve_constructs_post [of demo_clock "demo_submission\<lparr>cover := ''https://example.org/dig.jpg''\<rparr>" initial_state]
    approve_tags_demo
  by (simp add: show_int_examples approve_post_def approve_slug_def slugify_examples trim_def
      demo_submission_def placeholder_hero_def estimateMinutes_def Math_round_div_def
      split_ws.simps is_space_def)

subsection \<open>Submitting a draft\<close>

text \<open>
  Claim C3. When the name, the e-mail address, the title or the body of the draft is empty,
  or the terms are not agreed to, \<open>submit\<close> leaves the whole state as it is: the pending
  list and the draft are unchanged. When all four are present and the terms are agreed to,
  \<open>submit\<close> puts exactly one new submission in front of the pending list, with the status
  \<open>pending\<close>, the current time stamp as its id and the fields of the draft, and the draft
  becomes the empty form.
\<close>

theorem submit_validation:
  "(name (draft st) = [] \<or> email (draft st) = [] \<or> title_f (draft st) = []
      \<or> body_f (draft st) = [] \<or> \<not> agree (draft st)
     \<longrightarrow> snd (submit clk st) = st)
   \<and> (name (draft st) \<noteq> [] \<and> email (draft st) \<noteq> [] \<and> title_f (draft st) \<noteq> []
      \<and> body_f (draft st) \<noteq> [] \<and> agree (draft st)
     \<longrightarrow> (\<exists>sub. submissions (snd (submit clk st)) = sub # submissions st
            \<and> id_s sub = now clk \<and> status sub = ''pending''
            \<and> form.truncate sub = draft st)
         \<and> draft (snd (submit clk st)) = empty_form
         \<and> posts (snd (submit clk st)) = posts st)"
  by (auto simp: submit_def Let_def form.truncate_def)

theorem submit_validation_witness:
  "snd (submit demo_clock initial_state) = initial_state
   \<and> submissions (snd (submit demo_clock (setForm demo_form initial_state))) = [demo_submission]
   \<and> draft (snd (submit demo_clock (setForm demo_form initial_state))) = empty_form"
  using submit_validation [of initial_state demo_clock]
    submit_validation [of "setForm demo_form initial_state" demo_clock]
  by (simp add: submit_demo) (simp add: initial_state_def empty_form_def)

subsection \<open>Heading outline\<close>

lemma foldl_toc_step: "foldl toc_step acc ls = acc @ List.map_filter heading_item ls"
  by (induction ls arbitrary: acc) (auto simp: toc_step_def List.map_filter_simps split: option.splits)

lemma toc_map_filter: "toc md = List.map_filter heading_item (split_char (CHR 0x0A) md)"
  by (simp add: toc_def foldl_toc_step)

lemma space_not_hash: "is_space c \<Longrightarrow> c \<noteq> CHR ''#''"
  by (auto simp: is_space_def)

lemma all_same_replicate: "\<forall>y\<in>set xs. y = x \<Longrightarrow> xs = replicate (length xs) x"
  by (induction xs) auto

lemma heading_exec_shape:
  assumes "heading_exec line = Some (m1, m2)"
  shows "\<exists>w. line = m1 @ w @ m2 \<and> m1 = replicate (length m1) (CHR ''#'')
            \<and> 1 \<le> length m1 \<and> length m1 \<le> 6
            \<and> w \<noteq> [] \<and> (\<forall>c\<in>set w. is_space c)
            \<and> m2 \<noteq> [] \<and> (\<forall>c\<in>set m2. \<not> is_line_terminator c)"
proof -
  define h where "h = takeWhile (\<lambda>c. c = CHR ''#'') line"
  define r where "r = dropWhile (\<lambda>c. c = CHR ''#'') line"
  define w where "w = takeWhile is_space r"
  define t where "t = dropWhile is_space r"
  have line: "line = h @ w @ t"
    by (simp add: h_def r_def w_def t_def)
  have hrep: "h = replicate (length h) (CHR ''#'')"
    unfolding h_def by (rule all_same_replicate) (auto dest: set_takeWhileD)
  have wsp: "\<forall>c\<in>set w. is_space c"
    unfolding w_def by (auto dest: set_takeWhileD)
  from assms have ex:
    "(if length h < 1 \<or> 6 < length h \<or> w = [] then None
      else if t \<noteq> [] then (if list_ex is_line_terminator t then None else Some (h, t))
      else if 2 \<le> length w \<and> \<not> is_line_terminator (last w) then Some (h, [last w])
      else None) = Some (m1, m2)"
    unfolding heading_exec_def Let_def h_def r_def w_def t_def by assumption
  then have bounds: "1 \<le> length h" "length h \<le> 6" "w \<noteq> []"
    by (auto split: if_splits simp: Suc_le_eq)
  show ?thesis
  proof (cases "t = []")
    case False
    with ex bounds have "m1 = h" "m2 = t" "\<not> list_ex is_line_terminator t"
      by (auto split: if_splits)
    with line hrep wsp bounds False show ?thesis
      by (intro exI [of _ w]) (auto simp: list_ex_iff)
  next
    case True
    with ex bounds have m: "m1 = h" "m2 = [last w]" "2 \<le> length w" "\<not> is_line_terminator (last w)"
      by (auto split: if_splits)
    have "w = butlast w @ [last w]"
      using bounds by simp
    with line True have "line = h @ butlast w @ [last w]"
      by simp
    moreover have "butlast w \<noteq> []"
      using m(3) by (cases w) auto
    moreover have "\<forall>c\<in>set (butlast w). is_space c"
      using wsp by (auto dest: in_set_butlastD)
    ultimately show ?thesis
      using m hrep bounds by (intro exI [of _ "butlast w"]) auto
  qed
qed

lemma takeWhile_replicate_other:
  "c \<noteq> x \<Longrightarrow> takeWhile (\<lambda>y. y = x) (replicate k x @ c # ys) = replicate k x"
  by (induction k) auto

lemma dropWhile_replicate_other:
  "c \<noteq> x \<Longrightarrow> dropWhile (\<lambda>y. y = x) (replicate k x @ c # ys) = c # ys"
  by (induction k) auto

lemma heading_exec_prefix:
  assumes "w \<noteq> []" "\<forall>c\<in>set w. is_space c"
  shows "takeWhile (\<lambda>c. c = CHR ''#'') (replicate k (CHR ''#'') @ w @ t) = replicate k (CHR ''#'')"
    and "dropWhile (\<lambda>c. c = CHR ''#'') (replicate k (CHR ''#'') @ w @ t) = w @ t"
proof -
  from assms obtain c cs where w: "w = c # cs" and c: "c \<noteq> CHR ''#''"
    by (cases w) (auto dest: space_not_hash)
  show "takeWhile (\<lambda>c. c = CHR ''#'') (replicate k (CHR ''#'') @ w @ t) = replicate k (CHR ''#'')"
    using w c by (simp add: takeWhile_replicate_other)
  show "dropWhile (\<lambda>c. c = CHR ''#'') (replicate k (CHR ''#'') @ w @ t) = w @ t"
    using w c by (simp add: dropWhile_replicate_other)
qed

lemma heading_exec_text:
  assumes k: "1 \<le> k" "k \<le> 6"
    and w: "w \<noteq> []" "\<forall>c\<in>set w. is_space c"
    and t: "t \<noteq> []" "\<not> is_space (hd t)" "\<forall>c\<in>set t. \<not> is_line_terminator c"
  shows "heading_exec (replicate k (CHR ''#'') @ w @ t) = Some (replicate k (CHR ''#''), t)"
proof -
  from t obtain c cs where tc: "t = c # cs" "\<not> is_space c"
    by (cases t) auto
  have tw: "takeWhile is_space (w @ t) = w" "dropWhile is_space (w @ t) = t"
    using w tc by (simp_all add: takeWhile_append2 dropWhile_append2)
  show ?thesis
    using k w t tw
    by (simp add: heading_exec_def Let_def heading_exec_prefix [OF w] list_ex_iff)
qed

lemma heading_exec_complete:
  assumes k: "1 \<le> k" "k \<le> 6"
    and w: "w \<noteq> []" "\<forall>c\<in>set w. is_space c"
    and t: "t \<noteq> []" "\<forall>c\<in>set t. \<not> is_line_terminator c"
  shows "\<exists>m2. heading_exec (replicate k (CHR ''#'') @ w @ t) = Some (replicate k (CHR ''#''), m2)"
proof (cases "dropWhile is_space t = []")
  case False
  have tw: "takeWhile is_space (w @ t) = w @ takeWhile is_space t"
    "dropWhile is_space (w @ t) = dropWhile is_space t"
    using w by (simp_all add: takeWhile_append2 dropWhile_append2)
  have "\<forall>c\<in>set (dropWhile is_space t). \<not> is_line_terminator c"
    using t by (auto dest: set_dropWhileD)
  then show ?thesis
    using k w False tw
    by (simp add: heading_exec_def Let_def heading_exec_prefix [OF w] list_ex_iff)
next
  case True
  then have allsp: "\<forall>c\<in>set t. is_space c"
    by (simp add: dropWhile_eq_Nil_conv)
  then have tw: "takeWhile is_space (w @ t) = w @ t" "dropWhile is_space (w @ t) = []"
    using w by (simp_all add: takeWhile_append2 dropWhile_append2)
  have len: "2 \<le> length (w @ t)"
    using w t by (cases w; cases t) auto
  have "last (w @ t) = last t"
    using t by simp
  moreover have "\<not> is_line_terminator (last t)"
    using t by simp
  moreover have tt: "takeWhile is_space t = t" "dropWhile is_space t = []"
    using allsp by simp_all
  ultimately show ?thesis
    using k w t len
    by (simp add: heading_exec_def Let_def heading_exec_prefix [OF w] tt)
qed

lemma heading_exec_greedy:
  assumes ex: "heading_exec line = Some (m1, m2)"
    and line: "line = replicate n (CHR ''#'') @ u @ v"
    and u: "u \<noteq> []" "\<forall>c\<in>set u. is_space c"
    and v: "v \<noteq> []"
  shows "m1 = replicate n (CHR ''#'') \<and> length m2 \<le> length v"
proof -
  have dw: "dropWhile is_space (u @ v) = dropWhile is_space v"
    using u by (simp add: dropWhile_append2)
  have "length (dropWhile is_space v) \<le> length v"
    by (rule length_dropWhile_le)
  moreover have "Suc 0 \<le> length v"
    using v by (cases v) auto
  ultimately show ?thesis
    using ex unfolding line heading_exec_def Let_def heading_exec_prefix [OF u] dw
    by (auto split: if_splits)
qed

lemma hyphenate_chars:
  "c \<in> set (hyphenate s) \<Longrightarrow> c = CHR ''-'' \<or> (c \<in> set s \<and> \<not> is_space c)"
  by (induction s rule: hyphenate.induct) (auto split: if_splits dest: set_dropWhileD)

lemma trim_chars: "c \<in> set (trim s) \<Longrightarrow> c \<in> set s"
  by (auto simp: trim_def dest!: set_dropWhileD)

lemma slugify_chars:
  "c \<in> set (slugify s) \<Longrightarrow> is_lower_az c \<or> is_digit c \<or> c = CHR ''-''"
  by (auto simp: slugify_def slug_char_def dest!: hyphenate_chars trim_chars)

lemma is_space_code: "is_space c \<Longrightarrow> (of_char c :: nat) \<in> {9, 10, 11, 12, 13, 32, 160}"
  by (auto simp: is_space_def)

lemma toLowerCase_char_space: "is_space (toLowerCase_char c) \<Longrightarrow> toLowerCase_char c = c"
proof (rule ccontr)
  assume sp: "is_space (toLowerCase_char c)" and ne: "toLowerCase_char c \<noteq> c"
  define n where "n = (of_char c :: nat)"
  from ne have range: "(65 \<le> n \<and> n \<le> 90) \<or> (192 \<le> n \<and> n \<le> 222 \<and> n \<noteq> 215)"
    and low: "toLowerCase_char c = char_of (n + 32)"
    by (auto simp: toLowerCase_char_def Let_def n_def split: if_splits)
  from sp low have "(of_char (char_of (n + 32)) :: nat) \<in> {9, 10, 11, 12, 13, 32, 160}"
    by (auto dest: is_space_code)
  then have "(n + 32) mod 256 \<in> {9, 10, 11, 12, 13, 32, 160}"
    by simp
  with range show False
    by auto
qed

lemma slugify_spec_slugify:
  assumes "\<forall>c\<in>set s. is_space c \<longrightarrow> c = CHR '' ''"
  shows "slugify s = spec_slugify s"
proof -
  have "filter slug_char (toLowerCase s) = filter spec_slug_char (toLowerCase s)"
  proof (rule filter_cong [OF refl])
    fix x assume "x \<in> set (toLowerCase s)"
    then obtain c where c: "c \<in> set s" "x = toLowerCase_char c"
      by (auto simp: toLowerCase_def)
    have "is_space x \<Longrightarrow> x = CHR '' ''"
      using c assms toLowerCase_char_space [of c] by auto
    moreover have "is_space (CHR '' '')"
      by (simp add: is_space_def)
    ultimately show "slug_char x = spec_slug_char x"
      by (auto simp: slug_char_def spec_slug_char_def)
  qed
  then show ?thesis
    by (simp add: slugify_def spec_slugify_def)
qed

lemma toc_example:
  "toc ''## Form & function'' = [\<lparr>level = 2, text_t = ''Form & function'', id_t = ''form-function''\<rparr>]"
  by code_simp

lemma toc_tab:
  "toc tabbed_line = [\<lparr>level = 2, text_t = tabbed_heading, id_t = ''survey-methods''\<rparr>]"
  by code_simp

lemma spec_tab: "spec_slugify tabbed_heading = ''surveymethods''"
  by code_simp

lemma toc_seed:
  "toc (body samplePost1) =
     [\<lparr>level = 1, text_t = ''Pottery Through the Ages'', id_t = ''pottery-through-the-ages''\<rparr>,
      \<lparr>level = 2, text_t = ''Neolithic beginnings'', id_t = ''neolithic-beginnings''\<rparr>,
      \<lparr>level = 2, text_t = ''Form & function'', id_t = ''form-function''\<rparr>,
      \<lparr>level = 2, text_t = ''Classical refinements'', id_t = ''classical-refinements''\<rparr>,
      \<lparr>level = 3, text_t = ''Further reading'', id_t = ''further-reading''\<rparr>]"
  by code_simp

lemma toc_more:
  "toc (''#  `code` and *stars*'' @ CHR 0x0A # ''####### seven'' @ CHR 0x0A # ''##no space'' @ CHR 0x0A # ''### cr'' @ [CHR 0x0D])
     = [\<lparr>level = 1, text_t = ''code and *stars*'', id_t = ''code-and-stars''\<rparr>]"
  by code_simp

lemma heading_item_matches:
  "(heading_item line \<noteq> None) =
     (\<exists>n u v. line = replicate n (CHR ''#'') @ u @ v \<and> 1 \<le> n \<and> n \<le> 6
        \<and> u \<noteq> [] \<and> (\<forall>c\<in>set u. is_space c)
        \<and> v \<noteq> [] \<and> (\<forall>c\<in>set v. \<not> is_line_terminator c))"
proof
  assume "heading_item line \<noteq> None"
  then obtain m1 m2 where "heading_exec line = Some (m1, m2)"
    by (auto simp: heading_item_def split: option.splits)
  from heading_exec_shape [OF this] show
    "\<exists>n u v. line = replicate n (CHR ''#'') @ u @ v \<and> 1 \<le> n \<and> n \<le> 6
        \<and> u \<noteq> [] \<and> (\<forall>c\<in>set u. is_space c)
        \<and> v \<noteq> [] \<and> (\<forall>c\<in>set v. \<not> is_line_terminator c)"
    by metis
next
  assume "\<exists>n u v. line = replicate n (CHR ''#'') @ u @ v \<and> 1 \<le> n \<and> n \<le> 6
        \<and> u \<noteq> [] \<and> (\<forall>c\<in>set u. is_space c)
        \<and> v \<noteq> [] \<and> (\<forall>c\<in>set v. \<not> is_line_terminator c)"
  then obtain n u v where line: "line = replicate n (CHR ''#'') @ u @ v"
    and *: "1 \<le> n" "n \<le> 6" "u \<noteq> []" "\<forall>c\<in>set u. is_space c"
      "v \<noteq> []" "\<forall>c\<in>set v. \<not> is_line_terminator c"
    by blast
  from heading_exec_complete [OF *] obtain m2
    where "heading_exec line = Some (replicate n (CHR ''#''), m2)"
    unfolding line by blast
  then show "heading_item line \<noteq> None"
    by (simp add: heading_item_def Let_def)
qed

lemma heading_item_shape:
  assumes "heading_item line = Some it"
  shows "\<exists>n u v. line = replicate n (CHR ''#'') @ u @ v \<and> 1 \<le> n \<and> n \<le> 6
          \<and> u \<noteq> [] \<and> (\<forall>c\<in>set u. is_space c)
          \<and> v \<noteq> [] \<and> (\<forall>c\<in>set v. \<not> is_line_terminator c)
          \<and> level it = n \<and> text_t it = filter (\<lambda>c. c \<noteq> CHR 0x60) v
          \<and> id_t it = slugify (text_t it)"
proof -
  from assms obtain m1 m2 where ex: "heading_exec line = Some (m1, m2)"
    and it: "it = \<lparr>level = length m1, text_t = filter (\<lambda>c. c \<noteq> CHR 0x60) m2,
                   id_t = slugify (filter (\<lambda>c. c \<noteq> CHR 0x60) m2)\<rparr>"
    by (auto simp: heading_item_def Let_def split: option.splits)
  from heading_exec_shape [OF ex] obtain w where
    "line = m1 @ w @ m2" "m1 = replicate (length m1) (CHR ''#'')"
    "1 \<le> length m1" "length m1 \<le> 6" "w \<noteq> []" "\<forall>c\<in>set w. is_space c"
    "m2 \<noteq> []" "\<forall>c\<in>set m2. \<not> is_line_terminator c"
    by blast
  with it show ?thesis
    by (intro exI [of _ "length m1"] exI [of _ w] exI [of _ m2]) simp
qed

lemma heading_item_entry:
  assumes "1 \<le> k" "k \<le> 6" "w \<noteq> []" "\<forall>c\<in>set w. is_space c"
    "t \<noteq> []" "\<not> is_space (hd t)" "\<forall>c\<in>set t. \<not> is_line_terminator c"
  shows "heading_item (replicate k (CHR ''#'') @ w @ t) =
           Some \<lparr>level = k, text_t = filter (\<lambda>c. c \<noteq> CHR 0x60) t,
                 id_t = slugify (filter (\<lambda>c. c \<noteq> CHR 0x60) t)\<rparr>"
  by (simp add: heading_item_def Let_def heading_exec_text [OF assms])

text \<open>
  Claim C4, as the specification states it, fails: the id of an entry is not the
  slugification that the claim describes. In the heading line \<open>tabbed_line\<close>, which
  is \<open>## Survey<TAB>methods\<close>, a tab stands between the two words. \<open>slugify\<close> keeps every white-space character and makes
  the tab a hyphen, so the id is \<open>survey-methods\<close>; stripping all characters outside
  \<open>[a-z0-9 -]\<close> removes the tab and gives \<open>surveymethods\<close>.
\<close>

theorem toc_id_differs_from_spec_slug:
  "toc tabbed_line = [\<lparr>level = 2, text_t = tabbed_heading, id_t = ''survey-methods''\<rparr>]
   \<and> spec_slugify tabbed_heading = ''surveymethods''
   \<and> map id_t (toc tabbed_line) \<noteq> map (\<lambda>e. spec_slugify (text_t e)) (toc tabbed_line)"
  by (simp add: toc_tab spec_tab)

text \<open>
  Claim C4, amended. The outline of a body is, in the order of the document, the sequence
  of the entries of its heading lines. A line is a heading line exactly when it consists of
  1 to 6 characters \<open>#\<close>, then one or more white-space characters, then a non-empty text
  without a line terminator. The level of its entry is the number of the \<open>#\<close>; its text is
  what follows the white space (where the white space runs on to the end of the line, its
  last character), with every backquote removed and nothing else (asterisks and
  underscores stay); its id is \<open>slugify\<close> of that text: lower case, every character
  other than \<open>a\<close>-\<open>z\<close>, \<open>0\<close>-\<open>9\<close>, white space and the hyphen removed, trimmed, every
  run of white space made one hyphen. An id consists of \<open>a\<close>-\<open>z\<close>, \<open>0\<close>-\<open>9\<close> and hyphens,
  and it is the slugification of the specification for every text whose only white space
  is the space. The heading line \<open>## Form & function\<close> gives the entry of level 2 with
  the text \<open>Form & function\<close> and the id \<open>form-function\<close>.
\<close>

theorem toc_outline:
  "toc md = List.map_filter heading_item (split_char (CHR 0x0A) md)
   \<and> (heading_item line \<noteq> None) =
       (\<exists>n u v. line = replicate n (CHR ''#'') @ u @ v \<and> 1 \<le> n \<and> n \<le> 6
          \<and> u \<noteq> [] \<and> (\<forall>c\<in>set u. is_space c)
          \<and> v \<noteq> [] \<and> (\<forall>c\<in>set v. \<not> is_line_terminator c))
   \<and> (heading_item line = Some it \<longrightarrow>
       (\<exists>n u v. line = replicate n (CHR ''#'') @ u @ v \<and> 1 \<le> n \<and> n \<le> 6
          \<and> u \<noteq> [] \<and> (\<forall>c\<in>set u. is_space c)
          \<and> v \<noteq> [] \<and> (\<forall>c\<in>set v. \<not> is_line_terminator c)
          \<and> level it = n \<and> text_t it = filter (\<lambda>c. c \<noteq> CHR 0x60) v
          \<and> id_t it = slugify (text_t it)))
   \<and> (1 \<le> k \<and> k \<le> 6 \<and> w \<noteq> [] \<and> (\<forall>c\<in>set w. is_space c)
        \<and> t \<noteq> [] \<and> \<not> is_space (hd t) \<and> (\<forall>c\<in>set t. \<not> is_line_terminator c)
      \<longrightarrow> heading_item (replicate k (CHR ''#'') @ w @ t) =
           Some \<lparr>level = k, text_t = filter (\<lambda>c. c \<noteq> CHR 0x60) t,
                 id_t = slugify (filter (\<lambda>c. c \<noteq> CHR 0x60) t)\<rparr>)
   \<and> (\<forall>c\<in>set (slugify s). is_lower_az c \<or> is_digit c \<or> c = CHR ''-'')
   \<and> ((\<forall>c\<in>set s. is_space c \<longrightarrow> c = CHR '' '') \<longrightarrow> slugify s = spec_slugify s)
   \<and> toc ''## Form & function''
       = [\<lparr>level = 2, text_t = ''Form & function'', id_t = ''form-function''\<rparr>]"
  using toc_map_filter [of md] heading_item_matches [of line] heading_item_shape [of line it]
    heading_item_entry [of k w t] slugify_chars [of _ s] slugify_spec_slugify [of s] toc_example
  by blast

theorem toc_outline_witness:
  "heading_item ''## Form & function''
     = Some \<lparr>level = 2, text_t = ''Form & function'', id_t = ''form-function''\<rparr>
   \<and> slugify ''Form & function'' = spec_slugify ''Form & function''
   \<and> heading_item ''## Form & function'' \<noteq> None"
  using toc_outline [where k = 2 and w = "'' ''" and t = "''Form & function''"
      and s = "''Form & function''" and line = "''## Form & function''"]
  by (simp add: is_space_def is_line_terminator_def slugify_examples eval_nat_numeral)

subsection \<open>Glossary\<close>

lemma glossary_evaluations:
  "text_component ''sherd'' = [Fragment ''sherd'']"
  "text_component ''key for typological studies'' =
     [Fragment ''key for '',
      Span (Own ''Classification of artifacts based on shared attributes.'') ''typological'',
      Fragment '' studies'']"
  "text_component ''chronologies'' = [Fragment [], Fragment ''chronologies'', Fragment []]"
  by code_simp+

lemma glossary_never_sherds:
  "Span ti p \<in> set (text_component s) \<Longrightarrow> toLowerCase p \<noteq> ''sherds''"
proof
  assume a: "Span ti p \<in> set (text_component s)" and b: "toLowerCase p = ''sherds''"
  from a obtain part where "render_part part = Span ti p"
    by (auto simp: text_component_def)
  then have "glossary_get (strip_final_s (toLowerCase p)) \<noteq> Undefined"
    by (auto simp: render_part_def Let_def split: if_splits)
  moreover have "glossary_get (strip_final_s ''sherds'') = Undefined"
    by code_simp
  ultimately show False using b by simp
qed

text \<open>
  Claim C6 at the text \<open>sherds\<close>. The glossary has the entry \<open>sherds\<close>, and the
  pattern finds the word, but the key that is looked up is the word without its last
  \<open>s\<close>, \<open>sherd\<close>, which the glossary does not have: the word is rendered as a plain
  fragment, without a tooltip.
\<close>

theorem glossary_sherds_unannotated:
  "text_component ''sherds'' = [Fragment [], Fragment ''sherds'', Fragment []]
   \<and> glossary_get ''sherds'' = Own ''Broken pieces of ceramic material found at sites.''
   \<and> glossary_get (strip_final_s (toLowerCase ''sherds'')) = Undefined"
  by code_simp

subsection \<open>Search\<close>

lemma demo_fuse_subset: "set (demo_fuse opts ps q) \<subseteq> set ps"
  by (auto simp: demo_fuse_def)

lemma demo_search:
  "demo_fuse fuse_opts samplePosts ''field methods'' = [samplePost2, samplePost1]"
  by (simp add: demo_fuse_def samplePosts_def samplePost1_def samplePost2_def samplePost3_def)

text \<open>
  Claim C5. For every corpus \<open>C\<close>, the search with the empty query gives \<open>C\<close> itself, so
  the same posts with the same multiplicities. A non-empty query gives what the fuzzy
  matcher returns for it over the keys title, tags and body, in the matcher's order; the
  matcher returning posts of its corpus only, the result is a subset of \<open>C\<close>.
\<close>

theorem filtered_empty_query:
  "filtered Fuse C [] = C
   \<and> mset (filtered Fuse C []) = mset C
   \<and> (q \<noteq> [] \<longrightarrow> filtered Fuse C q = Fuse fuse_opts C q)
   \<and> keys fuse_opts = [''title'', ''tags'', ''body'']
   \<and> ((\<forall>opts ps q'. set (Fuse opts ps q') \<subseteq> set ps) \<longrightarrow> set (filtered Fuse C q) \<subseteq> set C)"
  by (auto simp: filtered_def fuse_opts_def)

theorem filtered_empty_query_witness:
  "filtered demo_fuse samplePosts [] = samplePosts
   \<and> filtered demo_fuse samplePosts ''field methods'' = [samplePost2, samplePost1]
   \<and> set (filtered demo_fuse samplePosts ''field methods'') \<subseteq> set samplePosts"
  using filtered_empty_query [of demo_fuse samplePosts "''field methods''"] demo_fuse_subset
  by (simp add: demo_search) (simp add: samplePosts_def)

text \<open>
  Claim C10. In the blog listing with a selected tag, the list shown is the result of the
  search over the corpus, filtered to the posts whose tags contain the selected tag: the
  search runs first, and the filter keeps the order of its results. With no tag selected
  the results of the search are shown as they are. (A selected tag is a non-empty text: the
  test \<open>tag ? ... : posts\<close> and the chip \<open>All\<close>, which is active when \<open>!tag\<close>, both take
  the empty text for no selection.)
\<close>

theorem blog_listing_search_then_filter:
  "(t \<noteq> [] \<longrightarrow>
      blog_listing Fuse C q (Some t) = filter (\<lambda>p. t \<in> set (tags p)) (filtered Fuse C q))
   \<and> (t \<noteq> [] \<and> q \<noteq> [] \<longrightarrow>
      blog_listing Fuse C q (Some t) = filter (\<lambda>p. t \<in> set (tags p)) (Fuse fuse_opts C q))
   \<and> blog_listing Fuse C q None = filtered Fuse C q
   \<and> subseq (blog_listing Fuse C q tag) (filtered Fuse C q)"
  by (auto simp: blog_listing_def shown_def filtered_def split: option.splits)

theorem blog_listing_search_then_filter_witness:
  "blog_listing demo_fuse samplePosts ''field methods'' (Some ''ceramics'') = [samplePost1]
   \<and> blog_listing demo_fuse samplePosts ''field methods'' None = [samplePost2, samplePost1]"
  using blog_listing_search_then_filter [of "''ceramics''" demo_fuse samplePosts "''field methods''" None]
  by (simp add: demo_search filtered_def) (simp add: samplePost1_def samplePost2_def)

subsection \<open>The persistent store\<close>

text \<open>
  Claim C9. \<open>loadLS\<close> never throws. It returns the parsed value of the item saved under
  the key when there is one and it parses, and the default when the key is absent, when the
  store cannot be read, or when the saved text is empty or does not parse. \<open>saveLS\<close> never
  throws either: when the value cannot be serialised or the store refuses the write, the
  store stays as it is. A value saved and written is what \<open>loadLS\<close> returns afterwards.
  A mutation in memory (here a bookmark toggle) takes place whatever the store does.
\<close>

theorem store_fallback:
  "loadLS parse ls key d \<noteq> Thrown
   \<and> (getItem ls key = Returned (Some val) \<and> val \<noteq> [] \<and> parse val = Returned v
        \<longrightarrow> loadLS parse ls key d = Returned v)
   \<and> (getItem ls key = Returned None \<or> getItem ls key = Thrown
        \<or> getItem ls key = Returned (Some val) \<and> (val = [] \<or> parse val = Thrown)
        \<longrightarrow> loadLS parse ls key d = Returned d)
   \<and> saveLS stringify ls key v \<noteq> Thrown
   \<and> (stringify v = Thrown \<or> (\<exists>s. stringify v = Returned s \<and> setItem ls key s = Thrown)
        \<longrightarrow> saveLS stringify ls key v = Returned ls)
   \<and> (stringify v = Returned s \<and> setItem ls key s = Returned ls' \<and> s \<noteq> []
        \<and> parse s = Returned v \<and> \<not> getItem_throws ls'
        \<longrightarrow> saveLS stringify ls key v = Returned ls' \<and> loadLS parse ls' key d = Returned v)
   \<and> fst (toggleBookmark_saved str sl (bm, ls)) = toggleBookmark sl bm
   \<and> snd (toggleBookmark_saved str sl (bm, ls)) \<noteq> Thrown"
  by (auto simp: loadLS_def saveLS_def try_catch_def getItem_def setItem_def
      toggleBookmark_saved_def Let_def split: outcome.splits option.splits if_splits)

theorem store_fallback_witness:
  "loadLS parse_bool empty_storage ''aw:dark'' True = Returned True
   \<and> loadLS parse_bool corrupt_storage ''aw:dark'' True = Returned True
   \<and> loadLS parse_bool failing_storage ''aw:dark'' True = Returned True
   \<and> saveLS stringify_bool failing_storage ''aw:dark'' False = Returned failing_storage
   \<and> saveLS stringify_bool empty_storage ''aw:dark'' False
       = Returned (empty_storage\<lparr>items := (items empty_storage)(''aw:dark'' \<mapsto> ''false'')\<rparr>)
   \<and> loadLS parse_bool (empty_storage\<lparr>items := (items empty_storage)(''aw:dark'' \<mapsto> ''false'')\<rparr>)
         ''aw:dark'' True = Returned False
   \<and> fst (toggleBookmark_saved (\<lambda>bm. Thrown) ''digital-archaeology'' ([], failing_storage))
       = [''digital-archaeology'']"
  using store_fallback [where parse = parse_bool and ls = empty_storage and key = "''aw:dark''"
      and d = True and stringify = stringify_bool and v = False and s = "''false''"
      and ls' = "empty_storage\<lparr>items := (items empty_storage)(''aw:dark'' \<mapsto> ''false'')\<rparr>"
      and str = "\<lambda>bm. Thrown" and sl = "''digital-archaeology''" and bm = "[]"]
    store_fallback [where parse = parse_bool and ls = corrupt_storage and key = "''aw:dark''"
      and d = True and val = "''{tru''"]
    store_fallback [where parse = parse_bool and ls = failing_storage and key = "''aw:dark''"
      and d = True and stringify = stringify_bool and v = False
      and str = "\<lambda>bm. Thrown" and sl = "''digital-archaeology''" and bm = "[]"]
  by (simp add: getItem_def setItem_def empty_storage_def corrupt_storage_def failing_storage_def
      parse_bool_def stringify_bool_def toggleBookmark_def)

subsection \<open>Bookmarks\<close>

text \<open>
  Claim C7. For every bookmark list \<open>B\<close> and slug \<open>s\<close>, toggling \<open>s\<close> twice gives a list
  with the members of \<open>B\<close>: every slug is bookmarked afterwards exactly when it was before.
  One toggle adds \<open>s\<close> when it is absent and removes it when it is present.
\<close>

theorem toggleBookmark_twice:
  "(x \<in> set (toggleBookmark s (toggleBookmark s B))) = (x \<in> set B)
   \<and> (s \<in> set (toggleBookmark s B)) = (s \<notin> set B)"
  by (auto simp: toggleBookmark_def)

theorem toggleBookmark_twice_witness:
  "toggleBookmark ''a'' (toggleBookmark ''a'' [''b'', ''a'', ''a'']) = [''b'', ''a'']
   \<and> toggleBookmark ''a'' (toggleBookmark ''a'' [''b'']) = [''b'']"
  using toggleBookmark_twice [of "''a''" "''a''" "[''b'', ''a'', ''a'']"]
  by (simp add: toggleBookmark_def)

subsection \<open>Reading time\<close>

lemma Math_round_div_round:
  assumes "0 < d"
  shows "int (Math_round_div n d) = round (real n / real d)"
proof -
  have "real n / real d + 1 / 2 = real (2 * n + d) / real (2 * d)"
    using assms by (simp add: field_simps)
  then have "round (real n / real d) = \<lfloor>real (2 * n + d) / real (2 * d)\<rfloor>"
    by (simp add: round_def)
  also have "\<dots> = int ((2 * n + d) div (2 * d))"
    by (rule floor_divide_of_nat_eq)
  finally show ?thesis by (simp add: Math_round_div_def)
qed

lemma split_ws_Nil: "split_ws [] = [[]]"
  by (simp add: split_ws.simps)

lemma split_ws_not_Nil: "split_ws s \<noteq> []"
  by (subst split_ws.simps) (simp split: list.splits)

lemma split_ws_space:
  "is_space c \<Longrightarrow> split_ws (c # cs) = [] # split_ws (dropWhile is_space cs)"
  by (subst split_ws.simps) simp

lemma split_ws_other:
  assumes "\<not> is_space c"
  shows "split_ws (c # cs) = (c # hd (split_ws cs)) # tl (split_ws cs)"
proof -
  have d: "dropWhile (\<lambda>c. \<not> is_space c) (c # cs) = dropWhile (\<lambda>c. \<not> is_space c) cs"
    "takeWhile (\<lambda>c. \<not> is_space c) (c # cs) = c # takeWhile (\<lambda>c. \<not> is_space c) cs"
    using assms by simp_all
  show ?thesis
  proof (cases "dropWhile (\<lambda>c. \<not> is_space c) cs")
    case Nil
    have "split_ws cs = [cs]"
      by (subst split_ws.simps) (simp only: Nil list.simps)
    moreover have "split_ws (c # cs) = [c # cs]"
      by (subst split_ws.simps) (simp only: d Nil list.simps)
    ultimately show ?thesis by simp
  next
    case (Cons x r)
    have "split_ws cs = takeWhile (\<lambda>c. \<not> is_space c) cs # split_ws (dropWhile is_space r)"
      by (subst split_ws.simps) (simp only: Cons list.simps)
    moreover have "split_ws (c # cs) =
        (c # takeWhile (\<lambda>c. \<not> is_space c) cs) # split_ws (dropWhile is_space r)"
      by (subst split_ws.simps) (simp only: d Cons list.simps)
    ultimately show ?thesis by simp
  qed
qed

lemma spec_words_from_skip:
  "spec_words_from [] (dropWhile is_space cs) = spec_words_from [] cs"
  by (induction cs) auto

lemma spec_words_from_split_ws:
  "spec_words_from cur s =
     filter (\<lambda>p. p \<noteq> []) ((rev cur @ hd (split_ws s)) # tl (split_ws s))"
proof (induction s arbitrary: cur rule: hyphenate.induct)
  case 1
  show ?case by (simp add: split_ws_Nil)
next
  case (2 c cs)
  show ?case
  proof (cases "is_space c")
    case True
    have "spec_words_from [] cs = filter (\<lambda>p. p \<noteq> []) (split_ws (dropWhile is_space cs))"
      using "2.IH"(1) [OF True, of "[]"] split_ws_not_Nil [of "dropWhile is_space cs"]
      by (simp add: spec_words_from_skip)
    with True show ?thesis
      by (simp add: split_ws_space)
  next
    case False
    with "2.IH"(2) [OF False, of "c # cur"] show ?thesis
      by (simp add: split_ws_other)
  qed
qed

lemma filter_split_ws: "filter (\<lambda>p. p \<noteq> []) (split_ws b) = spec_words b"
  using spec_words_from_split_ws [of "[]" b] split_ws_not_Nil [of b]
  by (simp add: spec_words_def)

lemma last_dropWhile: "dropWhile P xs \<noteq> [] \<Longrightarrow> last (dropWhile P xs) = last xs"
  by (induction xs) (auto split: if_splits)

lemma length_split_ws_aux:
  "(\<forall>cur. cur \<noteq> [] \<longrightarrow> length (split_ws s) = length (spec_words_from cur s) + trail s)
   \<and> length (split_ws s) = length (spec_words_from [] s) + lead s + trail s"
proof (induction s rule: hyphenate.induct)
  case 1
  show ?case by (simp add: split_ws_Nil lead_def trail_def)
next
  case (2 c cs)
  show ?case
  proof (cases "is_space c")
    case True
    define d where "d = dropWhile is_space cs"
    have ih: "length (split_ws d) = length (spec_words_from [] cs) + lead d + trail d"
      using "2.IH"(1) [OF True] by (simp add: d_def spec_words_from_skip)
    have "lead d + trail d = trail (c # cs)"
    proof (cases "d = []")
      case True
      then have "\<forall>x\<in>set cs. is_space x"
        by (simp add: d_def dropWhile_eq_Nil_conv)
      then have "is_space (last (c # cs))"
        using \<open>is_space c\<close> by (cases "cs = []") auto
      with True show ?thesis by (simp add: lead_def trail_def)
    next
      case False
      then have "\<not> is_space (hd d)" "last d = last cs" "cs \<noteq> []"
        unfolding d_def by (auto simp: hd_dropWhile last_dropWhile)
      with False show ?thesis by (simp add: lead_def trail_def)
    qed
    with ih True show ?thesis
      by (simp add: split_ws_space d_def lead_def)
  next
    case False
    have t: "trail (c # cs) = trail cs"
      using False by (simp add: trail_def)
    have len: "length (split_ws (c # cs)) = length (split_ws cs)"
      using False split_ws_not_Nil [of cs] by (simp add: split_ws_other)
    from "2.IH"(2) [OF False] have
      ih: "\<And>cur. cur \<noteq> [] \<Longrightarrow> length (split_ws cs) = length (spec_words_from cur cs) + trail cs"
      by blast
    have "length (split_ws (c # cs)) = length (spec_words_from cur (c # cs)) + trail (c # cs)"
      for cur
      using False ih [of "c # cur"] t len by simp
    moreover have "length (split_ws (c # cs))
        = length (spec_words_from [] (c # cs)) + lead (c # cs) + trail (c # cs)"
      using False ih [of "[c]"] t len by (simp add: lead_def)
    ultimately show ?thesis by blast
  qed
qed

lemma length_split_ws:
  "length (split_ws b) = spec_word_count b + lead b + trail b"
  using length_split_ws_aux [of b] by (simp add: spec_word_count_def spec_words_def)

lemma spec_words_repeat: "spec_words_from [] (concat (replicate n ''a '') @ r) = replicate n ''a'' @ spec_words_from [] r"
  by (induction n) (auto simp: is_space_def)

lemma trailing_count: "spec_word_count trailing_space_text = 769"
  using spec_words_repeat [of 769 "[]"]
  by (simp add: spec_word_count_def spec_words_def trailing_space_text_def)

lemma repeat_ends:
  "concat (replicate (Suc n) ''a '') \<noteq> []"
  "hd (concat (replicate (Suc n) ''a '')) = CHR ''a''"
  "last (concat (replicate (Suc n) ''a '')) = CHR '' ''"
  by (induction n) auto

lemma trailing_ends:
  "trailing_space_text \<noteq> []" "hd trailing_space_text = CHR ''a''" "last trailing_space_text = CHR '' ''"
proof -
  have "(769::nat) = Suc 768" by simp
  then have "trailing_space_text = concat (replicate (Suc 768) ''a '')"
    unfolding trailing_space_text_def by (rule arg_cong)
  then show "trailing_space_text \<noteq> []" "hd trailing_space_text = CHR ''a''"
    "last trailing_space_text = CHR '' ''"
    using repeat_ends [of 768] by simp_all
qed

lemma trailing_pieces: "length (split_ws trailing_space_text) = 770"
  using trailing_ends
  by (simp add: length_split_ws trailing_count lead_def trail_def is_space_def)

lemma trailing_minutes: "estimateMinutes trailing_space_text = 4"
  by (simp add: estimateMinutes_def trailing_pieces Math_round_div_def)

lemma round_769: "round (769 / 220 :: real) = 3"
  using Math_round_div_round [of 220 769] by (simp add: Math_round_div_def)

lemma estimateMinutes_round:
  "int (estimateMinutes b) = max 3 (round (real (length (split_ws b)) / 220))"
proof -
  have "int (Math_round_div (length (split_ws b)) 220) = round (real (length (split_ws b)) / 220)"
    using Math_round_div_round [of 220 "length (split_ws b)"] by simp
  then show ?thesis by (simp add: estimateMinutes_def)
qed

lemma demo_words:
  "spec_words ''Sherds  dominate most survey assemblages''
     = [''Sherds'', ''dominate'', ''most'', ''survey'', ''assemblages'']"
  "split_ws ''Sherds  dominate most survey assemblages''
     = [''Sherds'', ''dominate'', ''most'', ''survey'', ''assemblages'']"
  "split_ws '' a  b '' = [[], ''a'', ''b'', []]"
  "spec_words '' a  b '' = [''a'', ''b'']"
  by (simp_all add: spec_words_def split_ws.simps is_space_def)

text \<open>
  Claim C8, as the specification states it, fails when the word count is the number of
  words: \<open>estimateMinutes\<close> counts the pieces of \<open>md.split(/\s+/)\<close>, and white space at
  the end of the text adds an empty piece. A text of 769 words that ends with a space has
  770 pieces: the reading time is 4, where 769 words give \<open>max(3, round(769 / 220)) = 3\<close>.
\<close>

theorem estimateMinutes_trailing_space:
  "estimateMinutes trailing_space_text = 4
   \<and> spec_word_count trailing_space_text = 769
   \<and> int (estimateMinutes trailing_space_text)
       \<noteq> max 3 (round (real (spec_word_count trailing_space_text) / 220))"
  by (simp add: trailing_minutes trailing_count round_769)

text \<open>
  Claim C8, amended. For every body text \<open>b\<close>, the reading time is the larger of 3 and
  the number of pieces of \<open>b\<close> divided by 220 and rounded to the nearest integer (a half
  rounded up), so it is at least 3. The pieces are those of \<open>b\<close> split on runs of white
  space: its non-empty pieces are the words of \<open>b\<close>, and their number is the word count,
  plus one when \<open>b\<close> is empty or begins with white space, plus one when \<open>b\<close> is not empty
  and ends with white space. For a non-empty \<open>b\<close> that neither begins nor ends with white
  space, the reading time is \<open>max(3, round(word_count / 220))\<close>.
\<close>

theorem estimateMinutes_pieces:
  "int (estimateMinutes b) =
      max 3 (round (real (spec_word_count b
                          + (if b = [] \<or> is_space (hd b) then 1 else 0)
                          + (if b \<noteq> [] \<and> is_space (last b) then 1 else 0)) / 220))
   \<and> 3 \<le> estimateMinutes b
   \<and> filter (\<lambda>p. p \<noteq> []) (split_ws b) = spec_words b
   \<and> length (split_ws b) =
       spec_word_count b + (if b = [] \<or> is_space (hd b) then 1 else 0)
                         + (if b \<noteq> [] \<and> is_space (last b) then 1 else 0)
   \<and> (b \<noteq> [] \<and> \<not> is_space (hd b) \<and> \<not> is_space (last b)
        \<longrightarrow> int (estimateMinutes b) = max 3 (round (real (spec_word_count b) / 220)))"
proof -
  have len: "length (split_ws b) =
       spec_word_count b + (if b = [] \<or> is_space (hd b) then 1 else 0)
                         + (if b \<noteq> [] \<and> is_space (last b) then 1 else 0)"
    using length_split_ws [of b] by (simp only: lead_def trail_def)
  have "3 \<le> estimateMinutes b"
    by (simp add: estimateMinutes_def)
  moreover have "b \<noteq> [] \<and> \<not> is_space (hd b) \<and> \<not> is_space (last b)
        \<longrightarrow> int (estimateMinutes b) = max 3 (round (real (spec_word_count b) / 220))"
    using estimateMinutes_round [of b] len by auto
  ultimately show ?thesis
    using estimateMinutes_round [of b] filter_split_ws [of b] len by (simp only: simp_thms)
qed

theorem estimateMinutes_pieces_witness:
  "estimateMinutes ''Sherds  dominate most survey assemblages'' = 3
   \<and> spec_words ''Sherds  dominate most survey assemblages''
       = [''Sherds'', ''dominate'', ''most'', ''survey'', ''assemblages'']
   \<and> split_ws '' a  b '' = [[], ''a'', ''b'', []]
   \<and> length (split_ws '' a  b '') = spec_word_count '' a  b '' + 1 + 1
   \<and> max 3 (Math_round_div 769 220) = 3 \<and> max 3 (Math_round_div 770 220) = 4"
  using estimateMinutes_pieces [of "''Sherds  dominate most survey assemblages''"]
    estimateMinutes_pieces [of "'' a  b ''"]
  by (simp add: demo_words estimateMinutes_def Math_round_div_def spec_word_count_def)


end
